theory Spec2Isabelle
  imports Main
begin

section \<open>Methods, exceptions and state\<close>

text \<open>
  The module \<^verbatim>\<open>textblob/base.py\<close> holds abstract base classes. A method is modelled
  as a function from the state it runs in to its outcome and the state it leaves:
  \<open>Inr v\<close> when it returns \<open>v\<close>, \<open>Inl e\<close> when it raises \<open>e\<close>. The state is returned in
  both cases, because a Python exception does not undo the assignments made before it.
  The base classes raise nothing themselves; an exception raised by a method of a
  subclass is given by the name of its class.
\<close>

datatype exn = Exception string

type_synonym ('a, 's) py_method = "'s \<Rightarrow> (exn + 'a) \<times> 's"

section \<open>Tokenizers\<close>

text \<open>
  \<^verbatim>\<open>tokenize(self, text)\<close> is abstract: it has no body in the base class and is a
  parameter of the model. It receives the text and the extra arguments
  (\<^verbatim>\<open>*args\<close>, a list, and \<^verbatim>\<open>**kwargs\<close>, a list of named values), runs on the
  tokenizer's own state \<open>'s\<close> and returns a list of tokens or raises.
\<close>

type_synonym token = string

type_synonym 'v call_args = "'v list \<times> (string \<times> 'v) list"

type_synonym ('s, 'v) tokenize = "string \<Rightarrow> 'v call_args \<Rightarrow> (token list, 's) py_method"

text \<open>
  The tokenizer together with an observer: \<open>tokenize_calls\<close> lists, in order, the
  arguments of every invocation of \<^verbatim>\<open>tokenize\<close>. It is not an attribute of the Python
  object; it records when and with what \<^verbatim>\<open>tokenize\<close> ran.
\<close>

record ('s, 'v) tokenizer =
  tk_self :: 's
  tokenize_calls :: "(string \<times> 'v call_args) list"

text \<open>The call \<^verbatim>\<open>self.tokenize(text, *args, **kwargs)\<close>.\<close>

definition call_tokenize ::
  "('s, 'v) tokenize \<Rightarrow> string \<Rightarrow> 'v call_args \<Rightarrow> (token list, ('s, 'v) tokenizer) py_method"
where
  "call_tokenize tok text args w =
     (case tok text args (tk_self w) of
        (r, s') \<Rightarrow> (r, w\<lparr>tk_self := s', tokenize_calls := tokenize_calls w @ [(text, args)]\<rparr>))"

text \<open>
  A generator object made by the generator expression \<^verbatim>\<open>(t for t in xs)\<close>: it holds
  the iterator over \<open>xs\<close>, that is the elements not yet yielded. \<^verbatim>\<open>next(g)\<close> yields the
  first of them and suspends; on an exhausted generator it raises \<^verbatim>\<open>StopIteration\<close>
  (\<open>None\<close>) and the generator stays exhausted.
\<close>

datatype 't generator = Generator (pending: "'t list")

fun gen_next :: "'t generator \<Rightarrow> 't option \<times> 't generator" where
  "gen_next (Generator []) = (None, Generator [])"
| "gen_next (Generator (t # ts)) = (Some t, Generator ts)"

text \<open>\<^verbatim>\<open>list(g)\<close>: request elements until \<^verbatim>\<open>StopIteration\<close>.\<close>

function list_of_gen :: "'t generator \<Rightarrow> 't list \<times> 't generator" where
  "list_of_gen g =
     (case gen_next g of
        (None, g') \<Rightarrow> ([], g')
      | (Some t, g') \<Rightarrow> (case list_of_gen g' of (ts, g'') \<Rightarrow> (t # ts, g'')))"
  by pat_completeness auto
termination
proof (relation "measure (\<lambda>g. length (pending g))")
  show "wf (measure (\<lambda>g::'t generator. length (pending g)))"
    by simp
next
  fix g g' :: "'t generator" and r t
  assume "(r, g') = gen_next g" and "r = Some t"
  then show "(g', g) \<in> measure (\<lambda>g. length (pending g))"
    by (cases g; cases "pending g") auto
qed

declare list_of_gen.simps [simp del]

text \<open>
  A consumer that requests at most \<open>k\<close> elements, one \<^verbatim>\<open>next(g)\<close> at a time, and
  stops early at \<^verbatim>\<open>StopIteration\<close>.
\<close>

fun requests :: "nat \<Rightarrow> 't generator \<Rightarrow> 't list \<times> 't generator" where
  "requests 0 g = ([], g)"
| "requests (Suc k) g =
     (case gen_next g of
        (None, g') \<Rightarrow> ([], g')
      | (Some t, g') \<Rightarrow> (case requests k g' of (ts, g'') \<Rightarrow> (t # ts, g'')))"

text \<open>
  \<^verbatim>\<open>itokenize\<close>, lines 67 to 74:
  \<^verbatim>\<open>return (t for t in self.tokenize(text, *args, **kwargs))\<close>.
  Python evaluates the iterable of the leftmost \<^verbatim>\<open>for\<close> of a generator expression when
  the expression is evaluated, not at the first \<^verbatim>\<open>next\<close>: \<^verbatim>\<open>tokenize\<close> runs inside
  the call of \<^verbatim>\<open>itokenize\<close>, and an exception it raises leaves \<^verbatim>\<open>itokenize\<close>.
\<close>

definition itokenize ::
  "('s, 'v) tokenize \<Rightarrow> string \<Rightarrow> 'v call_args \<Rightarrow> (token generator, ('s, 'v) tokenizer) py_method"
where
  "itokenize tok text args w =
     (case call_tokenize tok text args w of
        (Inl e, w') \<Rightarrow> (Inl e, w')
      | (Inr ts, w') \<Rightarrow> (Inr (Generator ts), w'))"

text \<open>The consumer \<^verbatim>\<open>list(self.itokenize(text, *args, **kwargs))\<close>.\<close>

definition materialize ::
  "('s, 'v) tokenize \<Rightarrow> string \<Rightarrow> 'v call_args \<Rightarrow> (token list, ('s, 'v) tokenizer) py_method"
where
  "materialize tok text args w =
     (case itokenize tok text args w of
        (Inl e, w') \<Rightarrow> (Inl e, w')
      | (Inr g, w') \<Rightarrow> (Inr (fst (list_of_gen g)), w'))"

subsection \<open>Two test doubles\<close>

text \<open>
  Concrete tokenizers to run the model on. \<open>split_sep c\<close> is Python's
  \<^verbatim>\<open>str.split(c)\<close> for a one-character separator: the pieces between the separators,
  empty pieces included, so that \<^verbatim>\<open>"".split(" ")\<close> is \<^verbatim>\<open>[""]\<close>.
\<close>

fun split_sep :: "char \<Rightarrow> string \<Rightarrow> string list" where
  "split_sep c [] = [[]]"
| "split_sep c (x # xs) =
     (if x = c then [] # split_sep c xs
      else (case split_sep c xs of [] \<Rightarrow> [[x]] | w # ws \<Rightarrow> (x # w) # ws))"

text \<open>
  The double of the specification's scenario, which splits on whitespace
  (\<^verbatim>\<open>return text.split()\<close>, here for the space character): runs of spaces separate
  tokens and no token is empty.
\<close>

definition whitespace_tokenize :: "('s, 'v) tokenize" where
  "whitespace_tokenize text args s = (Inr (filter (\<lambda>w. w \<noteq> []) (split_sep CHR '' '' text)), s)"

text \<open>A double that splits at every single space (\<^verbatim>\<open>return text.split(" ")\<close>).\<close>

definition space_tokenize :: "('s, 'v) tokenize" where
  "space_tokenize text args s = (Inr (split_sep CHR '' '' text), s)"

section \<open>Sentiment analyzers\<close>

text \<open>The two kinds of analyzer, lines 80 and 81: plain strings.\<close>

definition DISCRETE :: string where
  "DISCRETE = ''ds''"

definition CONTINUOUS :: string where
  "CONTINUOUS = ''co''"

text \<open>
  What is visible through an instance of \<^verbatim>\<open>BaseSentimentAnalyzer\<close>: the class
  attribute \<^verbatim>\<open>kind\<close> and the instance attribute \<^verbatim>\<open>_trained\<close>, declared
  \<^verbatim>\<open>bool\<close>. The record is extensible: the attributes that a subclass adds are the
  extension.
\<close>

record sentiment_analyzer =
  kind :: string
  trained :: bool

text \<open>
  \<^verbatim>\<open>__init__\<close>, lines 94 and 95: \<^verbatim>\<open>self._trained = False\<close>.
\<close>

definition init :: "(unit, 'z sentiment_analyzer_scheme) py_method" where
  "init self = (Inr (), self\<lparr>trained := False\<rparr>)"

text \<open>
  The construction of an instance. The class is abstract (\<^verbatim>\<open>analyze\<close> is an
  \<^verbatim>\<open>abstractmethod\<close>), so an instance is an instance of a subclass: a new object,
  through which the class attribute \<^verbatim>\<open>kind = DISCRETE\<close> (line 92) is visible, is
  passed to \<^verbatim>\<open>__init__\<close>. The new object has no attribute \<^verbatim>\<open>_trained\<close> yet;
  nothing reads the field before \<^verbatim>\<open>__init__\<close> assigns it. \<open>ext\<close> holds the attributes
  of the subclass, which inherits \<^verbatim>\<open>__init__\<close> and does not override \<^verbatim>\<open>kind\<close>.
\<close>

definition new_analyzer :: "'z \<Rightarrow> 'z sentiment_analyzer_scheme" where
  "new_analyzer ext = snd (init \<lparr>kind = DISCRETE, trained = False, \<dots> = ext\<rparr>)"

text \<open>
  An instance of a subclass whose class body declares \<^verbatim>\<open>kind = k\<close>: the declaration
  hides the one of the base class, and nothing checks \<open>k\<close>.
\<close>

definition new_overriding_analyzer :: "string \<Rightarrow> 'z \<Rightarrow> 'z sentiment_analyzer_scheme" where
  "new_overriding_analyzer k ext = snd (init \<lparr>kind = k, trained = False, \<dots> = ext\<rparr>)"

text \<open>\<^verbatim>\<open>train\<close>, lines 97 to 99: \<^verbatim>\<open>self._trained = True\<close>.\<close>

definition train :: "(unit, 'z sentiment_analyzer_scheme) py_method" where
  "train self = (Inr (), self\<lparr>trained := True\<rparr>)"

text \<open>
  An analyzer together with an observer: \<open>train_calls\<close> counts the invocations of
  \<^verbatim>\<open>train()\<close>. It is not an attribute of the Python object.
\<close>

record 's observed =
  obj :: 's
  train_calls :: nat

text \<open>
  The call \<^verbatim>\<open>self.train()\<close>. Python looks the method up on the instance's class, so
  the method that runs, \<open>tr\<close>, is a parameter: it is \<open>train\<close> unless a subclass
  overrides it.
\<close>

definition call_train :: "(unit, 's) py_method \<Rightarrow> (unit, 's observed) py_method" where
  "call_train tr w =
     (case tr (obj w) of (r, s') \<Rightarrow> (r, w\<lparr>obj := s', train_calls := Suc (train_calls w)\<rparr>))"

text \<open>
  \<^verbatim>\<open>analyze\<close>, lines 101 to 110:
  \<^verbatim>\<open>if not self._trained: self.train()\<close> and then \<^verbatim>\<open>return None\<close>. There is no
  \<^verbatim>\<open>try\<close>: an exception of \<^verbatim>\<open>train()\<close> leaves \<^verbatim>\<open>analyze\<close>. The text is not
  used. The method is abstract and has this body: the \<^verbatim>\<open>analyze\<close> of a subclass
  reaches it through \<^verbatim>\<open>super().analyze(text)\<close>.
\<close>

definition analyze ::
  "(unit, 'z sentiment_analyzer_scheme) py_method \<Rightarrow> 'x \<Rightarrow>
   (unit, 'z sentiment_analyzer_scheme observed) py_method"
where
  "analyze tr text w =
     (if \<not> trained (obj w) then
        (case call_train tr w of
           (Inl e, w') \<Rightarrow> (Inl e, w')
         | (Inr u, w') \<Rightarrow> (Inr (), w'))
      else (Inr (), w))"

text \<open>
  A client of the contract calls \<^verbatim>\<open>train()\<close> and \<^verbatim>\<open>analyze(text)\<close> in any order.
  \<open>run\<close> performs a list of calls on one instance; the client goes on after a call
  that raised, which covers the client that stops as well.
\<close>

datatype 'x op = Train | Analyze 'x

fun step ::
  "(unit, 'z sentiment_analyzer_scheme) py_method \<Rightarrow> 'x op \<Rightarrow>
   (unit, 'z sentiment_analyzer_scheme observed) py_method"
where
  "step tr Train w = call_train tr w"
| "step tr (Analyze text) w = analyze tr text w"

fun run ::
  "(unit, 'z sentiment_analyzer_scheme) py_method \<Rightarrow> 'x op list \<Rightarrow>
   'z sentiment_analyzer_scheme observed \<Rightarrow> 'z sentiment_analyzer_scheme observed"
where
  "run tr [] w = w"
| "run tr (c # cs) w = run tr cs (snd (step tr c w))"

text \<open>A fresh instance under observation.\<close>

definition fresh :: "'z \<Rightarrow> 'z sentiment_analyzer_scheme observed" where
  "fresh ext = \<lparr>obj = new_analyzer ext, train_calls = 0\<rparr>"

subsection \<open>Two overrides of \<open>train\<close>\<close>

text \<open>
  \<^verbatim>\<open>def train(self): raise e\<close>: the training fails before anything is assigned.
\<close>

definition failing_train :: "exn \<Rightarrow> (unit, 'z sentiment_analyzer_scheme) py_method" where
  "failing_train e self = (Inl e, self)"

text \<open>
  \<^verbatim>\<open>def train(self): super().train(); raise e\<close>: the override calls the base method
  first and its own work fails afterwards.
\<close>

definition train_then_fail :: "exn \<Rightarrow> (unit, 'z sentiment_analyzer_scheme) py_method" where
  "train_then_fail e self =
     (case train self of
        (Inl e', s') \<Rightarrow> (Inl e', s')
      | (Inr u, s') \<Rightarrow> (Inl e, s'))"

section \<open>Properties of the tokenizer\<close>

lemma list_of_gen_Generator: "list_of_gen (Generator ts) = (ts, Generator [])"
  by (induction ts) (simp_all add: list_of_gen.simps [of "Generator _"])

lemma list_of_gen_eq: "list_of_gen g = (pending g, Generator [])"
  by (cases g) (simp add: list_of_gen_Generator)

lemma requests_Generator: "requests k (Generator ts) = (take k ts, Generator (drop k ts))"
proof (induction k arbitrary: ts)
  case 0
  show ?case by simp
next
  case (Suc k)
  show ?case by (cases ts) (simp_all add: Suc.IH)
qed

lemma call_tokenize_calls:
  "tokenize_calls (snd (call_tokenize tok t args w)) = tokenize_calls w @ [(t, args)]"
  by (simp add: call_tokenize_def split: prod.split)

lemma itokenize_calls:
  "tokenize_calls (snd (itokenize tok t args w)) = tokenize_calls w @ [(t, args)]"
proof (cases "call_tokenize tok t args w")
  case (Pair r w')
  with call_tokenize_calls [of tok t args w] show ?thesis
    by (cases r) (simp_all add: itokenize_def)
qed

lemma itokenize_pending:
  "fst (itokenize tok t args w) = Inr g \<Longrightarrow> fst (tok t args (tk_self w)) = Inr (pending g)"
  by (auto simp: itokenize_def call_tokenize_def split: prod.splits sum.splits)

lemma materialize_eq: "materialize tok t args w = call_tokenize tok t args w"
  by (simp add: materialize_def itokenize_def list_of_gen_Generator split: prod.split sum.split)

text \<open>
  C1, as the code has it. For every \<^verbatim>\<open>tokenize\<close>, text, extra arguments and state,
  \<^verbatim>\<open>list(self.itokenize(text, *args, **kwargs))\<close> and
  \<^verbatim>\<open>self.tokenize(text, *args, **kwargs)\<close> have the same outcome (the same tokens, or
  the same exception) and leave the same state; \<^verbatim>\<open>tokenize\<close> is invoked once, with
  the text and the extra arguments unchanged. On the empty string the outcome is that of
  \<^verbatim>\<open>tokenize("")\<close>: it is the empty sequence when \<^verbatim>\<open>tokenize("")\<close> is.
\<close>

theorem itokenize_materialize_eq_tokenize:
  "materialize tok t args w = call_tokenize tok t args w
   \<and> tokenize_calls (snd (materialize tok t args w)) = tokenize_calls w @ [(t, args)]
   \<and> (fst (call_tokenize tok '''' args w) = Inr [] \<longrightarrow> fst (materialize tok '''' args w) = Inr [])"
  by (simp add: materialize_eq call_tokenize_calls)

text \<open>
  The theorem at the whitespace double: \<^verbatim>\<open>"the quick fox"\<close> gives the three words
  through \<^verbatim>\<open>itokenize\<close>, and the empty string gives no token.
\<close>

theorem itokenize_materialize_eq_tokenize_witness:
  "materialize whitespace_tokenize ''the quick fox'' ([]::nat list, [])
       \<lparr>tk_self = (), tokenize_calls = []\<rparr>
     = (Inr [''the'', ''quick'', ''fox''],
        \<lparr>tk_self = (), tokenize_calls = [(''the quick fox'', ([], []))]\<rparr>)
   \<and> fst (call_tokenize whitespace_tokenize '''' ([]::nat list, [])
       \<lparr>tk_self = (), tokenize_calls = []\<rparr>) = Inr []
   \<and> fst (materialize whitespace_tokenize '''' ([]::nat list, [])
       \<lparr>tk_self = (), tokenize_calls = []\<rparr>) = Inr []"
  using itokenize_materialize_eq_tokenize [of whitespace_tokenize "''the quick fox''"
      "([]::nat list, [])" "\<lparr>tk_self = (), tokenize_calls = []\<rparr>"]
    itokenize_materialize_eq_tokenize [of whitespace_tokenize "''''"
      "([]::nat list, [])" "\<lparr>tk_self = (), tokenize_calls = []\<rparr>"]
  by (simp add: call_tokenize_def whitespace_tokenize_def)

text \<open>
  C1 as stated fails in its last part: with the double that splits at every space, the
  empty string gives the one-element sequence \<^verbatim>\<open>[""]\<close> through \<^verbatim>\<open>itokenize\<close>, not
  the empty sequence.
\<close>

theorem itokenize_empty_text_counterexample:
  "fst (materialize space_tokenize '''' ([]::nat list, [])
       \<lparr>tk_self = (), tokenize_calls = []\<rparr>) = Inr ['''']
   \<and> fst (materialize space_tokenize '''' ([]::nat list, [])
       \<lparr>tk_self = (), tokenize_calls = []\<rparr>) \<noteq> Inr []"
  by (simp add: materialize_def itokenize_def call_tokenize_def space_tokenize_def
      list_of_gen_Generator)

text \<open>
  C8, as the code has it. \<^verbatim>\<open>tokenize\<close> has run, once, when \<^verbatim>\<open>itokenize\<close> returns,
  and the generator returned holds the whole list of tokens that \<^verbatim>\<open>tokenize\<close>
  computed. The generator hands the tokens over one per request and in order: after
  \<open>k\<close> requests the first \<open>k\<close> tokens have been yielded and the others are pending. It is
  single-pass: \<^verbatim>\<open>list(g)\<close> yields the pending tokens and exhausts it, and an exhausted
  generator yields nothing more.
\<close>

theorem itokenize_eager_single_pass:
  "tokenize_calls (snd (itokenize tok t args w)) = tokenize_calls w @ [(t, args)]
   \<and> (fst (itokenize tok t args w) = Inr g \<longrightarrow> fst (tok t args (tk_self w)) = Inr (pending g))
   \<and> requests k g = (take k (pending g), Generator (drop k (pending g)))
   \<and> fst (gen_next g) = (case pending g of [] \<Rightarrow> None | x # xs \<Rightarrow> Some x)
   \<and> pending (snd (gen_next g)) = tl (pending g)
   \<and> list_of_gen g = (pending g, Generator [])
   \<and> list_of_gen (snd (list_of_gen g)) = ([], Generator [])
   \<and> gen_next (snd (list_of_gen g)) = (None, Generator [])"
proof (intro conjI impI)
  show "tokenize_calls (snd (itokenize tok t args w)) = tokenize_calls w @ [(t, args)]"
    by (rule itokenize_calls)
  show "fst (tok t args (tk_self w)) = Inr (pending g)" if "fst (itokenize tok t args w) = Inr g"
    using that by (rule itokenize_pending)
  show "requests k g = (take k (pending g), Generator (drop k (pending g)))"
    by (cases g) (simp add: requests_Generator)
  show "fst (gen_next g) = (case pending g of [] \<Rightarrow> None | x # xs \<Rightarrow> Some x)"
    by (cases g; cases "pending g") simp_all
  show "pending (snd (gen_next g)) = tl (pending g)"
    by (cases g; cases "pending g") simp_all
  show "list_of_gen g = (pending g, Generator [])"
    by (rule list_of_gen_eq)
  show "list_of_gen (snd (list_of_gen g)) = ([], Generator [])"
    by (simp add: list_of_gen_eq)
  show "gen_next (snd (list_of_gen g)) = (None, Generator [])"
    by (simp add: list_of_gen_eq)
qed

text \<open>
  The theorem at the whitespace double and \<^verbatim>\<open>"the quick fox"\<close>: the generator
  returned holds the three tokens, and two requests yield the first two.
\<close>

theorem itokenize_eager_single_pass_witness:
  "fst (itokenize whitespace_tokenize ''the quick fox'' ([]::nat list, [])
       \<lparr>tk_self = (), tokenize_calls = []\<rparr>) = Inr (Generator [''the'', ''quick'', ''fox''])
   \<and> fst (whitespace_tokenize ''the quick fox'' ([]::nat list, []) ())
       = Inr [''the'', ''quick'', ''fox'']
   \<and> requests 2 (Generator [''the'', ''quick'', ''fox''])
       = ([''the'', ''quick''], Generator [''fox''])"
  using itokenize_eager_single_pass [of whitespace_tokenize "''the quick fox''"
      "([]::nat list, [])" "\<lparr>tk_self = (), tokenize_calls = []\<rparr>"
      "Generator [''the'', ''quick'', ''fox'']" 2]
  by (simp add: itokenize_def call_tokenize_def whitespace_tokenize_def)

text \<open>
  C8 as stated fails: when \<^verbatim>\<open>itokenize("the quick fox")\<close> returns, before any element
  is requested, \<^verbatim>\<open>tokenize\<close> has been invoked and the three tokens are computed.
\<close>

theorem itokenize_computes_before_request_counterexample:
  "tokenize_calls (snd (itokenize whitespace_tokenize ''the quick fox'' ([]::nat list, [])
       \<lparr>tk_self = (), tokenize_calls = []\<rparr>)) = [(''the quick fox'', ([], []))]
   \<and> tokenize_calls (snd (itokenize whitespace_tokenize ''the quick fox'' ([]::nat list, [])
       \<lparr>tk_self = (), tokenize_calls = []\<rparr>)) \<noteq> []
   \<and> fst (itokenize whitespace_tokenize ''the quick fox'' ([]::nat list, [])
       \<lparr>tk_self = (), tokenize_calls = []\<rparr>) = Inr (Generator [''the'', ''quick'', ''fox''])"
  by (simp add: itokenize_def call_tokenize_def whitespace_tokenize_def)

section \<open>Properties of the sentiment analyzer\<close>

lemma analyze_untrained:
  "\<not> trained (obj w) \<Longrightarrow>
   analyze train t w =
     (Inr (), w\<lparr>obj := (obj w)\<lparr>trained := True\<rparr>, train_calls := Suc (train_calls w)\<rparr>)"
  by (simp add: analyze_def call_train_def train_def)

lemma analyze_trained: "trained (obj w) \<Longrightarrow> analyze tr t w = (Inr (), w)"
  by (simp add: analyze_def)

lemma call_train_base:
  "call_train train w =
     (Inr (), w\<lparr>obj := (obj w)\<lparr>trained := True\<rparr>, train_calls := Suc (train_calls w)\<rparr>)"
  by (simp add: call_train_def train_def)

lemma run_analyze_trained: "trained (obj w) \<Longrightarrow> run tr (map Analyze texts) w = w"
  by (induction texts) (simp_all add: analyze_trained)

lemma step_base_trained: "trained (obj w) \<Longrightarrow> trained (obj (snd (step train c w)))"
  by (cases c) (simp_all add: call_train_base analyze_trained)

lemma run_base_trained: "trained (obj w) \<Longrightarrow> trained (obj (run train cs w))"
  by (induction cs arbitrary: w) (simp_all add: step_base_trained)

lemma analyze_calls:
  "train_calls (snd (analyze tr t w)) =
     (if trained (obj w) then train_calls w else Suc (train_calls w))"
proof (cases "tr (obj w)")
  case (Pair r s')
  then show ?thesis
    by (cases r) (simp_all add: analyze_def call_train_def)
qed

lemma analyze_untrained_returns:
  "\<not> trained (obj w) \<Longrightarrow> fst (tr (obj w)) = Inr () \<Longrightarrow>
   analyze tr t w =
     (Inr (), w\<lparr>obj := snd (tr (obj w)), train_calls := Suc (train_calls w)\<rparr>)"
  by (cases "tr (obj w)") (simp add: analyze_def call_train_def)

lemma step_untrained_state:
  "\<not> trained (obj w) \<Longrightarrow>
   snd (step tr c w) = w\<lparr>obj := snd (tr (obj w)), train_calls := Suc (train_calls w)\<rparr>
   \<and> fst (step tr c w) = fst (tr (obj w))"
proof (cases "tr (obj w)")
  case (Pair r s')
  assume "\<not> trained (obj w)"
  with Pair show ?thesis
    by (cases c; cases r) (simp_all add: analyze_def call_train_def)
qed

lemma step_counted:
  "(trained (obj w) \<longrightarrow> 0 < train_calls w) \<Longrightarrow>
   trained (obj (snd (step tr c w))) \<longrightarrow> 0 < train_calls (snd (step tr c w))"
proof (cases "trained (obj w)")
  case True
  assume "trained (obj w) \<longrightarrow> 0 < train_calls w"
  with True show ?thesis
    by (cases c; cases "tr (obj w)") (simp_all add: analyze_def call_train_def)
next
  case False
  then show ?thesis
    by (simp add: step_untrained_state)
qed

lemma run_counted:
  "(trained (obj w) \<longrightarrow> 0 < train_calls w) \<Longrightarrow>
   trained (obj (run tr cs w)) \<longrightarrow> 0 < train_calls (run tr cs w)"
proof (induction cs arbitrary: w)
  case Nil
  then show ?case by simp
next
  case (Cons c cs)
  from step_counted [OF Cons.prems, of tr c]
  show ?case by (simp add: Cons.IH)
qed

lemma step_kind:
  assumes "\<forall>s. kind (snd (tr s)) = kind s"
  shows "kind (obj (snd (step tr c w))) = kind (obj w)"
proof (cases "tr (obj w)")
  case (Pair r s')
  from assms have "kind (snd (tr (obj w))) = kind (obj w)"
    by blast
  with Pair show ?thesis
    by (cases c; cases r) (simp_all add: analyze_def call_train_def)
qed

lemma run_kind:
  assumes "\<forall>s. kind (snd (tr s)) = kind s"
  shows "kind (obj (run tr cs w)) = kind (obj w)"
  by (induction cs arbitrary: w) (simp_all add: step_kind [OF assms])

text \<open>
  C2, as the code has it. \<^verbatim>\<open>analyze\<close> invokes \<^verbatim>\<open>self.train()\<close> exactly when it
  finds the flag unset, whatever \<^verbatim>\<open>train\<close> the instance has. When that \<^verbatim>\<open>train()\<close>
  returns normally and leaves the flag set, as the one of the base class always does,
  the call leaves the instance trained; a call on a trained instance invokes nothing and
  changes nothing. So after any sequence of one or more \<^verbatim>\<open>analyze\<close> calls on a fresh
  instance whose \<^verbatim>\<open>train()\<close> returns with the flag set, \<^verbatim>\<open>train()\<close> has been invoked
  exactly once.
\<close>

theorem analyze_trains_exactly_once:
  "train_calls (snd (analyze tr t w)) =
     (if trained (obj w) then train_calls w else Suc (train_calls w))
   \<and> (\<not> trained (obj w) \<and> fst (tr (obj w)) = Inr () \<and> trained (snd (tr (obj w))) \<longrightarrow>
        analyze tr t w =
          (Inr (), w\<lparr>obj := snd (tr (obj w)), train_calls := Suc (train_calls w)\<rparr>)
        \<and> trained (obj (snd (analyze tr t w))))
   \<and> (trained (obj w) \<longrightarrow> analyze tr t w = (Inr (), w))
   \<and> (texts \<noteq> [] \<and> fst (tr (new_analyzer ext)) = Inr () \<and> trained (snd (tr (new_analyzer ext))) \<longrightarrow>
        train_calls (run tr (map Analyze texts) (fresh ext)) = 1
        \<and> trained (obj (run tr (map Analyze texts) (fresh ext))))
   \<and> fst (train self) = Inr ()
   \<and> trained (snd (train self))"
proof (intro conjI impI)
  show "train_calls (snd (analyze tr t w)) =
     (if trained (obj w) then train_calls w else Suc (train_calls w))"
    by (rule analyze_calls)
next
  assume a: "\<not> trained (obj w) \<and> fst (tr (obj w)) = Inr () \<and> trained (snd (tr (obj w)))"
  then show eq: "analyze tr t w =
        (Inr (), w\<lparr>obj := snd (tr (obj w)), train_calls := Suc (train_calls w)\<rparr>)"
    by (simp add: analyze_untrained_returns)
  from a show "trained (obj (snd (analyze tr t w)))"
    by (simp add: eq)
next
  assume "trained (obj w)"
  then show "analyze tr t w = (Inr (), w)"
    by (rule analyze_trained)
next
  assume a: "texts \<noteq> [] \<and> fst (tr (new_analyzer ext)) = Inr ()
      \<and> trained (snd (tr (new_analyzer ext)))"
  then obtain x xs where texts: "texts = x # xs"
    by (cases texts) auto
  have untrained: "\<not> trained (obj (fresh ext))"
    by (simp add: fresh_def new_analyzer_def init_def)
  from a have ok: "fst (tr (obj (fresh ext))) = Inr ()"
    by (simp add: fresh_def)
  have first: "snd (analyze tr x (fresh ext))
      = \<lparr>obj = snd (tr (new_analyzer ext)), train_calls = 1\<rparr>"
    using analyze_untrained_returns [of "fresh ext" tr x] untrained ok
    by (simp add: fresh_def)
  from a have "trained (obj \<lparr>obj = snd (tr (new_analyzer ext)), train_calls = 1\<rparr>)"
    by simp
  then have all: "run tr (map Analyze texts) (fresh ext)
      = \<lparr>obj = snd (tr (new_analyzer ext)), train_calls = 1\<rparr>"
    unfolding texts by (simp add: first run_analyze_trained)
  show "train_calls (run tr (map Analyze texts) (fresh ext)) = 1"
    by (simp add: all)
  from a show "trained (obj (run tr (map Analyze texts) (fresh ext)))"
    by (simp add: all)
next
  show "fst (train self) = Inr ()"
    by (simp add: train_def)
  show "trained (snd (train self))"
    by (simp add: train_def)
qed

text \<open>
  The theorem at a fresh instance with the \<^verbatim>\<open>train()\<close> of the base class: the first
  \<^verbatim>\<open>analyze\<close> trains, a second one on the trained instance does not, and three calls in
  a row invoke \<^verbatim>\<open>train()\<close> once.
\<close>

theorem analyze_trains_exactly_once_witness:
  "\<not> trained (obj (fresh ()))
   \<and> fst (train (obj (fresh ()))) = Inr ()
   \<and> trained (snd (train (obj (fresh ()))))
   \<and> analyze train ''good'' (fresh ())
       = (Inr (), \<lparr>obj = \<lparr>kind = DISCRETE, trained = True\<rparr>, train_calls = 1\<rparr>)
   \<and> trained (obj \<lparr>obj = \<lparr>kind = DISCRETE, trained = True\<rparr>, train_calls = 1\<rparr>)
   \<and> analyze train ''bad'' \<lparr>obj = \<lparr>kind = DISCRETE, trained = True\<rparr>, train_calls = 1\<rparr>
       = (Inr (), \<lparr>obj = \<lparr>kind = DISCRETE, trained = True\<rparr>, train_calls = 1\<rparr>)
   \<and> [''good'', ''bad'', ''fine''] \<noteq> []
   \<and> fst (train (new_analyzer ())) = Inr ()
   \<and> trained (snd (train (new_analyzer ())))
   \<and> train_calls (run train (map Analyze [''good'', ''bad'', ''fine'']) (fresh ())) = 1
   \<and> trained (obj (run train (map Analyze [''good'', ''bad'', ''fine'']) (fresh ())))"
  using analyze_trains_exactly_once [where tr = train and w = "fresh ()" and t = "''good''"
      and texts = "[''good'', ''bad'', ''fine'']" and ext = "()"]
    analyze_trains_exactly_once [where tr = train and t = "''bad''" and texts = "[]" and ext = "()"
      and w = "\<lparr>obj = \<lparr>kind = DISCRETE, trained = True\<rparr>, train_calls = 1\<rparr>"]
  by (simp add: fresh_def new_analyzer_def init_def analyze_def call_train_def train_def)

text \<open>
  C2 as stated fails: with a \<^verbatim>\<open>train()\<close> that raises, two \<^verbatim>\<open>analyze\<close> calls on a
  fresh instance invoke \<^verbatim>\<open>train()\<close> twice, and the instance is still untrained.
\<close>

theorem analyze_retrains_untrained_counterexample:
  "train_calls (run (failing_train (Exception ''boom'')) (map Analyze [''good'', ''bad''])
       (fresh ())) = 2
   \<and> \<not> trained (obj (run (failing_train (Exception ''boom'')) (map Analyze [''good'', ''bad''])
       (fresh ())))"
  by (simp add: fresh_def new_analyzer_def init_def analyze_def call_train_def failing_train_def)

text \<open>
  C3, as the code has it. When the \<^verbatim>\<open>train()\<close> that \<^verbatim>\<open>analyze\<close> invokes on an
  untrained instance raises, \<^verbatim>\<open>analyze\<close> raises the same exception and leaves the
  instance as \<^verbatim>\<open>train()\<close> left it: \<^verbatim>\<open>analyze\<close> itself assigns nothing, and the flag is
  unset afterwards exactly when \<^verbatim>\<open>train()\<close> had not set it before raising.
\<close>

theorem analyze_propagates_train_failure:
  "\<not> trained (obj w) \<Longrightarrow> tr (obj w) = (Inl e, s') \<Longrightarrow>
   analyze tr t w = (Inl e, w\<lparr>obj := s', train_calls := Suc (train_calls w)\<rparr>)
   \<and> trained (obj (snd (analyze tr t w))) = trained s'"
  by (simp add: analyze_def call_train_def)

text \<open>
  The theorem at a \<^verbatim>\<open>train()\<close> that raises at once: the exception reaches the caller of
  \<^verbatim>\<open>analyze\<close> and the instance is still untrained.
\<close>

theorem analyze_propagates_train_failure_witness:
  "\<not> trained (obj (fresh ()))
   \<and> failing_train (Exception ''boom'') (obj (fresh ())) = (Inl (Exception ''boom''), obj (fresh ()))
   \<and> analyze (failing_train (Exception ''boom'')) ''good'' (fresh ())
       = (Inl (Exception ''boom''), \<lparr>obj = \<lparr>kind = DISCRETE, trained = False\<rparr>, train_calls = 1\<rparr>)
   \<and> \<not> trained (obj (snd (analyze (failing_train (Exception ''boom'')) ''good'' (fresh ()))))"
  using analyze_propagates_train_failure [of "fresh ()" "failing_train (Exception ''boom'')"
      "Exception ''boom''" "obj (fresh ())" "''good''"]
  by (simp add: fresh_def new_analyzer_def init_def failing_train_def)

text \<open>
  C3 as stated fails: with a \<^verbatim>\<open>train()\<close> that calls the base method and then raises,
  \<^verbatim>\<open>analyze\<close> on a fresh instance raises and the flag is set all the same.
\<close>

theorem train_failure_sets_flag_counterexample:
  "\<not> trained (obj (fresh ()))
   \<and> fst (train_then_fail (Exception ''boom'') (obj (fresh ()))) = Inl (Exception ''boom'')
   \<and> fst (analyze (train_then_fail (Exception ''boom'')) ''good'' (fresh ()))
       = Inl (Exception ''boom'')
   \<and> trained (obj (snd (analyze (train_then_fail (Exception ''boom'')) ''good'' (fresh ()))))"
  by (simp add: fresh_def new_analyzer_def init_def analyze_def call_train_def
      train_then_fail_def train_def)

text \<open>
  C4, as the code has it. \<^verbatim>\<open>__init__\<close> leaves the flag false, so a constructed
  instance is untrained. The flag becomes true only through an invocation of
  \<^verbatim>\<open>train()\<close>: a call of the contract that finds the instance untrained and leaves it
  trained has invoked \<^verbatim>\<open>train()\<close> once, leaves the instance as that \<^verbatim>\<open>train()\<close> left
  it and has the outcome of that \<^verbatim>\<open>train()\<close>; with the \<^verbatim>\<open>train()\<close> of the base class
  the outcome is a normal return. So an instance that is trained after some calls has
  had \<^verbatim>\<open>train()\<close> invoked.
\<close>

theorem trained_flag_false_until_trained:
  "trained (snd (init self)) = False
   \<and> trained (new_analyzer ext) = False
   \<and> (\<not> trained (obj w) \<and> trained (obj (snd (step tr c w))) \<longrightarrow>
        train_calls (snd (step tr c w)) = Suc (train_calls w)
        \<and> obj (snd (step tr c w)) = snd (tr (obj w))
        \<and> fst (step tr c w) = fst (tr (obj w)))
   \<and> (\<not> trained (obj w) \<and> trained (obj (snd (step train c w))) \<longrightarrow>
        fst (step train c w) = Inr () \<and> train_calls (snd (step train c w)) = Suc (train_calls w))
   \<and> (trained (obj (run tr cs (fresh ext))) \<longrightarrow> 0 < train_calls (run tr cs (fresh ext)))"
proof (intro conjI)
  show "trained (snd (init self)) = False"
    by (simp add: init_def)
  show "trained (new_analyzer ext) = False"
    by (simp add: new_analyzer_def init_def)
  show "\<not> trained (obj w) \<and> trained (obj (snd (step tr c w))) \<longrightarrow>
        train_calls (snd (step tr c w)) = Suc (train_calls w)
        \<and> obj (snd (step tr c w)) = snd (tr (obj w))
        \<and> fst (step tr c w) = fst (tr (obj w))"
    by (simp add: step_untrained_state)
  show "\<not> trained (obj w) \<and> trained (obj (snd (step train c w))) \<longrightarrow>
        fst (step train c w) = Inr () \<and> train_calls (snd (step train c w)) = Suc (train_calls w)"
    by (cases c) (simp_all add: call_train_base analyze_untrained)
  show "trained (obj (run tr cs (fresh ext))) \<longrightarrow> 0 < train_calls (run tr cs (fresh ext))"
    by (rule run_counted) (simp add: fresh_def new_analyzer_def init_def)
qed

text \<open>
  The theorem at a fresh instance with the \<^verbatim>\<open>train()\<close> of the base class, one
  \<^verbatim>\<open>analyze\<close> call, and two calls.
\<close>

theorem trained_flag_false_until_trained_witness:
  "\<not> trained (obj (fresh ()))
   \<and> trained (obj (snd (step train (Analyze ''good'') (fresh ()))))
   \<and> fst (step train (Analyze ''good'') (fresh ())) = Inr ()
   \<and> fst (train (obj (fresh ()))) = Inr ()
   \<and> obj (snd (step train (Analyze ''good'') (fresh ()))) = snd (train (obj (fresh ())))
   \<and> train_calls (snd (step train (Analyze ''good'') (fresh ()))) = 1
   \<and> trained (obj (run train [Analyze ''good'', Train] (fresh ())))
   \<and> 0 < train_calls (run train [Analyze ''good'', Train] (fresh ()))"
  using trained_flag_false_until_trained [where tr = train and ext = "()" and w = "fresh ()"
      and c = "Analyze ''good''" and cs = "[Analyze ''good'', Train]"]
  by (simp add: fresh_def new_analyzer_def init_def analyze_def call_train_def train_def)

text \<open>
  C4 as stated fails: with a \<^verbatim>\<open>train()\<close> that calls the base method and then raises,
  one \<^verbatim>\<open>analyze\<close> call turns the flag of a fresh instance from false to true although
  the training step did not complete: the call raises.
\<close>

theorem flag_set_without_completion_counterexample:
  "\<not> trained (obj (fresh ()))
   \<and> trained (obj (snd (step (train_then_fail (Exception ''boom'')) (Analyze ''good'') (fresh ()))))
   \<and> fst (step (train_then_fail (Exception ''boom'')) (Analyze ''good'') (fresh ()))
       = Inl (Exception ''boom'')"
  by (simp add: fresh_def new_analyzer_def init_def analyze_def call_train_def
      train_then_fail_def train_def)

text \<open>
  C5. \<^verbatim>\<open>train()\<close> returns normally and leaves the instance trained, whatever the
  instance; a second \<^verbatim>\<open>train()\<close> returns normally and leaves the instance as the first
  one did. Called on a fresh instance before any \<^verbatim>\<open>analyze\<close>, it trains the instance:
  the \<^verbatim>\<open>analyze\<close> that follows invokes no further \<^verbatim>\<open>train()\<close>.
\<close>

theorem train_idempotent:
  "fst (train self) = Inr ()
   \<and> trained (snd (train self))
   \<and> fst (train (snd (train self))) = Inr ()
   \<and> trained (snd (train (snd (train self))))
   \<and> snd (train (snd (train self))) = snd (train self)
   \<and> fst (call_train train (snd (call_train train w))) = Inr ()
   \<and> trained (obj (run train [Train] w))
   \<and> trained (obj (run train [Train, Train] w))
   \<and> obj (run train [Train, Train] w) = obj (run train [Train] w)
   \<and> analyze train t (run train [Train] (fresh ext)) = (Inr (), run train [Train] (fresh ext))
   \<and> train_calls (run train [Train, Analyze t] (fresh ext)) = 1"
  by (simp add: train_def call_train_def analyze_def fresh_def)

text \<open>
  C6. Once an instance is trained, every call of the contract leaves it trained, and so
  does every sequence of calls.
\<close>

theorem trained_is_permanent:
  "trained (obj w) \<Longrightarrow>
   trained (obj (snd (step train c w))) \<and> trained (obj (run train cs w))"
  by (simp add: step_base_trained run_base_trained)

text \<open>The theorem at an instance trained by a direct \<^verbatim>\<open>train()\<close>.\<close>

theorem trained_is_permanent_witness:
  "trained (obj (snd (call_train train (fresh ()))))
   \<and> trained (obj (snd (step train (Analyze ''good'') (snd (call_train train (fresh ()))))))
   \<and> trained (obj (run train [Analyze ''good'', Train, Train, Analyze ''bad'']
         (snd (call_train train (fresh ())))))"
  using trained_is_permanent [of "snd (call_train train (fresh ()))" "Analyze ''good''"
      "[Analyze ''good'', Train, Train, Analyze ''bad'']"]
  by (simp add: call_train_def train_def)

text \<open>
  C7, as the code has it. The base class declares \<^verbatim>\<open>kind = DISCRETE\<close>, one of the two
  values \<open>DISCRETE\<close> and \<open>CONTINUOUS\<close>, so the kind of an analyzer that does not override
  it is \<open>DISCRETE\<close>, at construction and after any calls. The kind of an analyzer that
  overrides it is the value its class declares, whatever it is. \<^verbatim>\<open>__init__\<close>,
  \<^verbatim>\<open>train\<close> and \<^verbatim>\<open>analyze\<close> never assign \<^verbatim>\<open>kind\<close>: it stays as declared through any
  calls, provided an overriding \<^verbatim>\<open>train()\<close> does not assign it either.
\<close>

theorem kind_is_discrete:
  "kind (new_analyzer ext) = DISCRETE
   \<and> kind (new_analyzer ext) \<in> {DISCRETE, CONTINUOUS}
   \<and> card {DISCRETE, CONTINUOUS} = 2
   \<and> kind (obj (run train cs (fresh ext))) = DISCRETE
   \<and> kind (new_overriding_analyzer k ext) = k
   \<and> kind (snd (init self)) = kind self
   \<and> kind (snd (train self)) = kind self
   \<and> ((\<forall>s. kind (snd (tr s)) = kind s) \<longrightarrow> kind (obj (run tr cs w)) = kind (obj w))"
proof (intro conjI impI)
  have base: "\<forall>s :: 'a sentiment_analyzer_scheme. kind (snd (train s)) = kind s"
    by (simp add: train_def)
  show "kind (new_analyzer ext) = DISCRETE"
    by (simp add: new_analyzer_def init_def)
  then show "kind (new_analyzer ext) \<in> {DISCRETE, CONTINUOUS}"
    by simp
  show "card {DISCRETE, CONTINUOUS} = 2"
    by (simp add: DISCRETE_def CONTINUOUS_def)
  show "kind (obj (run train cs (fresh ext))) = DISCRETE"
    by (simp add: run_kind [OF base] fresh_def new_analyzer_def init_def)
  show "kind (new_overriding_analyzer k ext) = k"
    by (simp add: new_overriding_analyzer_def init_def)
  show "kind (snd (init self)) = kind self"
    by (simp add: init_def)
  show "kind (snd (train self)) = kind self"
    by (simp add: train_def)
  show "kind (obj (run tr cs w)) = kind (obj w)" if "\<forall>s. kind (snd (tr s)) = kind s"
    using that by (rule run_kind)
qed

text \<open>
  The theorem at an instance of a subclass that declares \<^verbatim>\<open>kind = CONTINUOUS\<close>, with the
  \<^verbatim>\<open>train()\<close> of the base class and three calls.
\<close>

theorem kind_is_discrete_witness:
  "(\<forall>s :: sentiment_analyzer. kind (snd (train s)) = kind s)
   \<and> kind (new_overriding_analyzer CONTINUOUS ()) = CONTINUOUS
   \<and> kind (obj (run train [Analyze ''good'', Train, Analyze ''bad'']
        \<lparr>obj = new_overriding_analyzer CONTINUOUS (), train_calls = 0\<rparr>)) = CONTINUOUS"
  using kind_is_discrete [where tr = train and k = CONTINUOUS and ext = "()"
      and cs = "[Analyze ''good'', Train, Analyze ''bad'']"
      and w = "\<lparr>obj = new_overriding_analyzer CONTINUOUS (), train_calls = 0\<rparr>"]
  by (simp add: train_def new_overriding_analyzer_def init_def)

text \<open>
  C7 as stated fails in its first part: an analyzer whose class declares
  \<^verbatim>\<open>kind = "zz"\<close> has a kind that is neither \<open>DISCRETE\<close> nor \<open>CONTINUOUS\<close>, at
  construction and after \<^verbatim>\<open>train()\<close> and \<^verbatim>\<open>analyze\<close>.
\<close>

theorem kind_unchecked_counterexample:
  "kind (new_overriding_analyzer ''zz'' ()) = ''zz''
   \<and> kind (new_overriding_analyzer ''zz'' ()) \<notin> {DISCRETE, CONTINUOUS}
   \<and> kind (obj (run train [Train, Analyze ''good'']
        \<lparr>obj = new_overriding_analyzer ''zz'' (), train_calls = 0\<rparr>)) \<notin> {DISCRETE, CONTINUOUS}"
  by (simp add: new_overriding_analyzer_def init_def analyze_def call_train_def train_def
      DISCRETE_def CONTINUOUS_def)

text \<open>C9. The two kinds are the strings \<^verbatim>\<open>"ds"\<close> and \<^verbatim>\<open>"co"\<close>, and they differ.\<close>

theorem discrete_neq_continuous:
  "DISCRETE = ''ds'' \<and> CONTINUOUS = ''co'' \<and> DISCRETE \<noteq> CONTINUOUS"
  by (simp add: DISCRETE_def CONTINUOUS_def)

text \<open>
  C10. The base \<^verbatim>\<open>train()\<close> returns the instance with \<^verbatim>\<open>_trained\<close> set and nothing
  else changed: \<^verbatim>\<open>kind\<close> and the attributes of a subclass are as before, and so is
  every observation \<open>f\<close> of the instance that does not read the flag. \<^verbatim>\<open>__init__\<close>
  assigns \<^verbatim>\<open>_trained\<close> only as well, so construction leaves \<^verbatim>\<open>kind\<close> at the
  class's value and the subclass's attributes as given.
\<close>

theorem train_changes_only_trained:
  "train self = (Inr (), self\<lparr>trained := True\<rparr>)
   \<and> kind (snd (train self)) = kind self
   \<and> sentiment_analyzer.more (snd (train self)) = sentiment_analyzer.more self
   \<and> ((\<forall>s b. f (s\<lparr>trained := b\<rparr>) = f s) \<longrightarrow> f (snd (train self)) = f self)
   \<and> init self = (Inr (), self\<lparr>trained := False\<rparr>)
   \<and> kind (snd (init self)) = kind self
   \<and> sentiment_analyzer.more (snd (init self)) = sentiment_analyzer.more self
   \<and> kind (new_analyzer ext) = DISCRETE
   \<and> sentiment_analyzer.more (new_analyzer ext) = ext"
  by (simp add: train_def new_analyzer_def init_def)

text \<open>The theorem at an untrained instance of kind \<open>CONTINUOUS\<close>, observed by its kind.\<close>

theorem train_changes_only_trained_witness:
  "(\<forall>s b. kind ((s :: sentiment_analyzer)\<lparr>trained := b\<rparr>) = kind s)
   \<and> kind (snd (train \<lparr>kind = CONTINUOUS, trained = False\<rparr>)) = CONTINUOUS
   \<and> train \<lparr>kind = CONTINUOUS, trained = False\<rparr>
       = (Inr (), \<lparr>kind = CONTINUOUS, trained = True\<rparr>)"
  using train_changes_only_trained [of "\<lparr>kind = CONTINUOUS, trained = False\<rparr>" kind "()"]
  by simp

end
